theory Spec2Isabelle
  imports Main
begin

section \<open>Data model of \<open>auth.py\<close>\<close>

text \<open>
  The texts that the program stores, compares or uses as keys (usernames, tokens,
  digests, cookie names) are \<open>string\<close>, and so are byte strings. A \<open>datetime\<close> is
  the integer number of microseconds it denotes (the resolution of Python's
  \<open>datetime\<close>), and a \<open>timedelta\<close> is a difference of two such numbers.
\<close>

type_synonym datetime = int

text \<open>\<open>timedelta(hours=h)\<close>, in microseconds.\<close>

definition timedelta_hours :: "int \<Rightarrow> int" where
  "timedelta_hours h = h * 3600000000"

text \<open>The configuration constants of the module.\<close>

definition SESSION_DURATION_HOURS :: int where
  "SESSION_DURATION_HOURS = 24"

definition COOKIE_NAME :: string where
  "COOKIE_NAME = ''auth_session''"

text \<open>
  A value of \<open>_SESSION_STORE\<close>: the dictionary with the keys \<open>"username"\<close>,
  \<open>"created_at"\<close> and \<open>"expires_at"\<close> that \<open>create_session\<close> builds.
\<close>

record session =
  username :: string
  created_at :: datetime
  expires_at :: datetime

text \<open>\<open>_SESSION_STORE: dict[str, dict]\<close>, keyed by token.\<close>

type_synonym session_store = "string \<rightharpoonup> session"

text \<open>\<open>_USERS: dict[str, str]\<close>, from a username to the hex digest of the password.\<close>

type_synonym user_store = "string \<rightharpoonup> string"

text \<open>
  The password is the one text the program encodes. It is a Python \<open>str\<close> as it is:
  the sequence of its code points, numbers up to \<open>0x10FFFF\<close>, among them the
  surrogates \<open>0xD800\<close> to \<open>0xDFFF\<close>, which a \<open>str\<close> may hold and UTF-8 has no
  bytes for.
\<close>

type_synonym py_str = "nat list"

datatype error = UnicodeEncodeError

definition is_surrogate :: "nat \<Rightarrow> bool" where
  "is_surrogate c = (0xD800 \<le> c \<and> c \<le> 0xDFFF)"

text \<open>The UTF-8 bytes of one code point.\<close>

definition utf8 :: "nat \<Rightarrow> string" where
  "utf8 c =
     (if c < 0x80 then [char_of c]
      else if c < 0x800 then [char_of (0xC0 + c div 0x40), char_of (0x80 + c mod 0x40)]
      else if c < 0x10000 then
        [char_of (0xE0 + c div 0x1000), char_of (0x80 + c div 0x40 mod 0x40),
         char_of (0x80 + c mod 0x40)]
      else
        [char_of (0xF0 + c div 0x40000), char_of (0x80 + c div 0x1000 mod 0x40),
         char_of (0x80 + c div 0x40 mod 0x40), char_of (0x80 + c mod 0x40)])"

text \<open>
  \<open>str.encode()\<close>, with its defaults UTF-8 and \<open>strict\<close>: the bytes of the code
  points in their order, and \<open>UnicodeEncodeError\<close> raised when one of them is a
  surrogate.
\<close>

fun encode :: "py_str \<Rightarrow> error + string" where
  "encode [] = Inr []"
| "encode (c # cs) =
     (if is_surrogate c then Inl UnicodeEncodeError
      else case encode cs of
             Inl e \<Rightarrow> Inl e
           | Inr bs \<Rightarrow> Inr (utf8 c @ bs))"

text \<open>
  The library call \<open>hashlib.sha256(b).hexdigest()\<close> is a parameter \<open>sha256_hex\<close> of
  every definition that hashes: a function from the bytes hashed to the digest's
  text. The table the module ships, whose two passwords encode to the bytes of their
  ASCII letters:
\<close>

definition USERS :: "(string \<Rightarrow> string) \<Rightarrow> user_store" where
  "USERS sha256_hex =
     [''test1'' \<mapsto> sha256_hex ''test1'', ''test2'' \<mapsto> sha256_hex ''test2'']"

section \<open>Operations of \<open>auth.py\<close>\<close>

text \<open>
  \<open>verify_user\<close>: encode and hash the password, which raises when the password
  cannot be encoded; then look the username up with \<open>dict.get\<close>, return \<open>False\<close> on
  a miss and the comparison of the two digests otherwise. The state is the two
  module globals \<open>_USERS\<close> and \<open>_SESSION_STORE\<close>; the result is what the call
  returns or raises, and the state after the call.
\<close>

definition verify_user ::
    "(string \<Rightarrow> string) \<Rightarrow> string \<Rightarrow> py_str \<Rightarrow> user_store \<times> session_store \<Rightarrow>
     (error + bool) \<times> user_store \<times> session_store" where
  "verify_user sha256_hex uname password st =
     (case st of (users, store) \<Rightarrow>
        case encode password of
          Inl e \<Rightarrow> (Inl e, users, store)
        | Inr bytes \<Rightarrow>
            (let password_hash = sha256_hex bytes;
                 stored_hash = users uname
             in case stored_hash of
                  None \<Rightarrow> (Inr False, users, store)
                | Some h \<Rightarrow> (Inr (h = password_hash), users, store)))"

text \<open>
  \<open>create_session\<close>. Its two readings of the environment are arguments: \<open>token\<close> is
  the value of \<open>str(uuid.uuid4())\<close> (a text of 36 characters) and \<open>now\<close> the value of
  \<open>datetime.now()\<close>; \<open>hours\<close> is the module global \<open>SESSION_DURATION_HOURS\<close> read at
  the call. The assignment \<open>_SESSION_STORE[token] = {...}\<close> is a dictionary store,
  whatever the dictionary held under that key. The result is the returned token and
  the store after the call.
\<close>

definition create_session ::
    "int \<Rightarrow> string \<Rightarrow> datetime \<Rightarrow> string \<Rightarrow> session_store \<Rightarrow> string \<times> session_store" where
  "create_session hours token now uname store =
     (token,
      store(token \<mapsto>
        \<lparr>username = uname, created_at = now, expires_at = now + timedelta_hours hours\<rparr>))"

text \<open>
  \<open>validate_session\<close>: \<open>not token\<close> holds of the empty text; \<open>dict.get\<close> gives
  \<open>None\<close> on a miss; an entry with \<open>now > expires_at\<close> is deleted. The result is the
  returned \<open>Optional[str]\<close> and the store after the call.
\<close>

definition validate_session ::
    "string \<Rightarrow> datetime \<Rightarrow> session_store \<Rightarrow> string option \<times> session_store" where
  "validate_session token now store =
     (if token = [] then (None, store)
      else case store token of
             None \<Rightarrow> (None, store)
           | Some sess \<Rightarrow>
               if now > expires_at sess then (None, store(token := None))
               else (Some (username sess), store))"

text \<open>
  \<open>destroy_session\<close>: \<open>_SESSION_STORE.pop(token, None)\<close> removes the key when it is
  there and does nothing otherwise; the function returns \<open>None\<close>, so the result is
  the store after the call.
\<close>

definition destroy_session :: "string \<Rightarrow> session_store \<Rightarrow> session_store" where
  "destroy_session token store = store(token := None)"

text \<open>
  A run of \<open>create_session\<close> calls, one after the other on the same store: each
  element gives the token and the clock reading of one call and its argument.
\<close>

fun create_sessions ::
    "int \<Rightarrow> (string \<times> datetime \<times> string) list \<Rightarrow> session_store \<Rightarrow> session_store" where
  "create_sessions hours [] store = store"
| "create_sessions hours ((token, now, uname) # calls) store =
     create_sessions hours calls (snd (create_session hours token now uname store))"

section \<open>The login handler of \<open>app.py\<close>\<close>

text \<open>
  The browser's cookies, from a cookie's name to its value. \<open>cookie_manager.set\<close>
  asks the browser to store a value under a name and \<open>st.context.cookies.get\<close> reads
  the cookies a request carries: both belong to the framework, and are modelled as a
  store into and a lookup in that map.
\<close>

type_synonym cookies = "string \<rightharpoonup> string"

definition cookie_manager_set :: "string \<Rightarrow> string \<Rightarrow> cookies \<Rightarrow> cookies" where
  "cookie_manager_set name v jar = jar(name \<mapsto> v)"

definition cookies_get :: "cookies \<Rightarrow> string \<Rightarrow> string option" where
  "cookies_get jar name = jar name"

text \<open>The three keys \<open>_init_session_state\<close> puts into \<open>st.session_state\<close>.\<close>

record session_state =
  authenticated :: bool
  state_username :: "string option"
  state_token :: "string option"

text \<open>
  What a submitted login form ends with: the error for an empty field, the halt
  after a successful login, or the error for bad credentials.
\<close>

datatype login_outcome = EmptyFieldsError | LoginSuccess | InvalidCredentialsError

text \<open>
  The \<open>if submitted:\<close> branch of \<open>_show_login_form\<close>, on the username and password
  typed into the form. The state is the tab's \<open>session_state\<close>, the credential
  table, the session store and the browser's cookies. An exception of \<open>verify_user\<close>
  is not caught and leaves the handler.
\<close>

definition login_submitted ::
    "(string \<Rightarrow> string) \<Rightarrow> int \<Rightarrow> string \<Rightarrow> datetime \<Rightarrow> string \<Rightarrow> py_str \<Rightarrow>
     session_state \<times> user_store \<times> session_store \<times> cookies \<Rightarrow>
     error + login_outcome \<times> session_state \<times> user_store \<times> session_store \<times> cookies" where
  "login_submitted sha256_hex hours token now uname password st =
     (case st of (ss, users, store, jar) \<Rightarrow>
        if uname = [] \<or> password = [] then Inr (EmptyFieldsError, ss, users, store, jar)
        else
          (case verify_user sha256_hex uname password (users, store) of
             (Inl e, users', store') \<Rightarrow> Inl e
           | (Inr ok, users', store') \<Rightarrow>
               if ok then
                 (case create_session hours token now uname store' of (tok, store'') \<Rightarrow>
                    Inr (LoginSuccess,
                         \<lparr>authenticated = True, state_username = Some uname,
                            state_token = Some tok\<rparr>,
                         users', store'',
                         cookie_manager_set COOKIE_NAME tok jar))
               else Inr (InvalidCredentialsError, ss, users', store', jar)))"

section \<open>Facts about the operations\<close>

lemma validate_session_empty: "validate_session [] now store = (None, store)"
  by (simp add: validate_session_def)

lemma validate_session_miss:
  "store token = None \<Longrightarrow> validate_session token now store = (None, store)"
  by (simp add: validate_session_def)

lemma validate_session_expired:
  "token \<noteq> [] \<Longrightarrow> store token = Some sess \<Longrightarrow> expires_at sess < now \<Longrightarrow>
   validate_session token now store = (None, store(token := None))"
  by (simp add: validate_session_def)

lemma validate_session_live:
  "token \<noteq> [] \<Longrightarrow> store token = Some sess \<Longrightarrow> now \<le> expires_at sess \<Longrightarrow>
   validate_session token now store = (Some (username sess), store)"
  by (simp add: validate_session_def)

lemma create_session_fst: "fst (create_session hours token now uname store) = token"
  by (simp add: create_session_def)

lemma create_session_snd_apply:
  "snd (create_session hours token now uname store) t =
     (if t = token
      then Some \<lparr>username = uname, created_at = now, expires_at = now + timedelta_hours hours\<rparr>
      else store t)"
  by (simp add: create_session_def)

lemma create_sessions_other:
  "t \<notin> set (map fst calls) \<Longrightarrow> create_sessions hours calls store t = store t"
proof (induction calls arbitrary: store)
  case Nil
  show ?case by simp
next
  case (Cons c calls)
  obtain token now uname where c: "c = (token, now, uname)"
    by (cases c) auto
  from Cons.prems c have neq: "t \<noteq> token" and rest: "t \<notin> set (map fst calls)"
    by auto
  have "create_sessions hours (c # calls) store t
        = create_sessions hours calls (snd (create_session hours token now uname store)) t"
    by (simp add: c)
  also have "\<dots> = snd (create_session hours token now uname store) t"
    by (rule Cons.IH [OF rest])
  also have "\<dots> = store t"
    using neq by (simp add: create_session_snd_apply)
  finally show ?case .
qed

lemma destroy_session_apply:
  "destroy_session token store t = (if t = token then None else store t)"
  by (simp add: destroy_session_def)

lemma encode_raises_iff:
  "(encode p = Inl UnicodeEncodeError) = (\<exists>c \<in> set p. is_surrogate c)"
  by (induction p) (auto split: sum.splits)

lemma encode_ascii:
  "\<forall>c \<in> set s. (of_char c :: nat) < 0x80 \<Longrightarrow> encode (map of_char s) = Inr s"
  by (induction s) (auto simp: utf8_def is_surrogate_def)

lemma encode_surrogate: "encode [0xD800] = Inl UnicodeEncodeError"
  by (simp add: is_surrogate_def)

lemma verify_user_encodable:
  "encode password = Inr bytes \<Longrightarrow>
   verify_user sha256_hex uname password (users, store)
     = (Inr (users uname = Some (sha256_hex bytes)), users, store)"
  by (auto simp: verify_user_def split: option.splits)

lemma verify_user_raises:
  "encode password = Inl e \<Longrightarrow>
   verify_user sha256_hex uname password (users, store) = (Inl e, users, store)"
  by (simp add: verify_user_def)

lemma verify_user_state: "snd (verify_user sha256_hex uname password st) = st"
  by (cases st) (simp add: verify_user_def split: sum.splits option.splits)

lemma validate_session_twice:
  assumes "first_now \<le> second_now"
  shows "validate_session token second_now (snd (validate_session token first_now store))
           = validate_session token second_now store"
proof (cases "token = [] \<or> store token = None")
  case True
  then have "validate_session token first_now store = (None, store)"
    by (auto simp: validate_session_empty validate_session_miss)
  then show ?thesis by simp
next
  case False
  then obtain sess where nonempty: "token \<noteq> []" and look: "store token = Some sess"
    by auto
  show ?thesis
  proof (cases "expires_at sess < first_now")
    case True
    with assms have late: "expires_at sess < second_now" by simp
    have first: "validate_session token first_now store = (None, store(token := None))"
      using nonempty look True by (simp add: validate_session_expired)
    have once: "validate_session token second_now store = (None, store(token := None))"
      using nonempty look late by (simp add: validate_session_expired)
    have second: "validate_session token second_now (store(token := None))
                  = (None, store(token := None))"
      by (rule validate_session_miss) simp
    from first once second show ?thesis by simp
  next
    case False
    then have "first_now \<le> expires_at sess" by simp
    with nonempty look
    have "validate_session token first_now store = (Some (username sess), store)"
      by (simp add: validate_session_live)
    then show ?thesis by simp
  qed
qed

lemma validate_session_frame:
  "snd (validate_session token now store) = store
   \<or> (\<exists>sess. token \<noteq> [] \<and> store token = Some sess \<and> expires_at sess < now
         \<and> snd (validate_session token now store) = store(token := None))"
  by (auto simp: validate_session_def split: option.splits)

section \<open>Creating sessions\<close>

text \<open>
  Claim C1, as the code has it. \<open>create_session\<close> returns the token it generated and
  stores the new session under it, with no test whether the store already has that
  key: every other key keeps its entry, and an entry under the generated token is
  replaced. So a session outlives a run of \<open>create_session\<close> calls whenever none of
  the tokens generated in the run is its own.
\<close>

theorem create_session_inserts_unchecked:
  "fst (create_session hours token now uname store) = token
   \<and> snd (create_session hours token now uname store) token
       = Some \<lparr>username = uname, created_at = now, expires_at = now + timedelta_hours hours\<rparr>
   \<and> (\<forall>t. t \<noteq> token \<longrightarrow> snd (create_session hours token now uname store) t = store t)
   \<and> (\<forall>t. t \<notin> set (map fst calls) \<longrightarrow> create_sessions hours calls store t = store t)"
proof (intro conjI allI impI)
  show "fst (create_session hours token now uname store) = token"
    by (rule create_session_fst)
  show "snd (create_session hours token now uname store) token
       = Some \<lparr>username = uname, created_at = now, expires_at = now + timedelta_hours hours\<rparr>"
    by (simp add: create_session_snd_apply)
  show "snd (create_session hours token now uname store) t = store t" if "t \<noteq> token" for t
    using that by (simp add: create_session_snd_apply)
  show "create_sessions hours calls store t = store t" if "t \<notin> set (map fst calls)" for t
    using that by (rule create_sessions_other)
qed

theorem create_session_inserts_unchecked_witness:
  "fst (create_session 24 ''t2'' 10 ''bob''
          [''t1'' \<mapsto> \<lparr>username = ''alice'', created_at = 0, expires_at = 5\<rparr>]) = ''t2''
   \<and> snd (create_session 24 ''t2'' 10 ''bob''
          [''t1'' \<mapsto> \<lparr>username = ''alice'', created_at = 0, expires_at = 5\<rparr>]) ''t2''
       = Some \<lparr>username = ''bob'', created_at = 10, expires_at = 10 + timedelta_hours 24\<rparr>
   \<and> snd (create_session 24 ''t2'' 10 ''bob''
          [''t1'' \<mapsto> \<lparr>username = ''alice'', created_at = 0, expires_at = 5\<rparr>]) ''t1''
       = Some \<lparr>username = ''alice'', created_at = 0, expires_at = 5\<rparr>
   \<and> create_sessions 24 [(''t2'', 10, ''bob''), (''t3'', 20, ''carol'')]
          [''t1'' \<mapsto> \<lparr>username = ''alice'', created_at = 0, expires_at = 5\<rparr>] ''t1''
       = Some \<lparr>username = ''alice'', created_at = 0, expires_at = 5\<rparr>"
proof -
  let ?s = "[''t1'' \<mapsto> \<lparr>username = ''alice'', created_at = 0, expires_at = (5::int)\<rparr>]"
  let ?calls = "[(''t2'', 10::int, ''bob''), (''t3'', 20, ''carol'')]"
  note inst = create_session_inserts_unchecked
    [where hours = 24 and token = "''t2''" and now = 10 and uname = "''bob''" and store = ?s
       and calls = ?calls]
  have neq: "''t1'' \<noteq> ''t2''" by simp
  have fresh: "''t1'' \<notin> set (map fst ?calls)" by simp
  have look: "?s ''t1'' = Some \<lparr>username = ''alice'', created_at = 0, expires_at = 5\<rparr>" by simp
  have c1: "fst (create_session 24 ''t2'' 10 ''bob'' ?s) = ''t2''"
    by (rule conjunct1 [OF inst])
  have c2: "snd (create_session 24 ''t2'' 10 ''bob'' ?s) ''t2''
            = Some \<lparr>username = ''bob'', created_at = 10, expires_at = 10 + timedelta_hours 24\<rparr>"
    by (rule conjunct1 [OF conjunct2 [OF inst]])
  have "snd (create_session 24 ''t2'' 10 ''bob'' ?s) ''t1'' = ?s ''t1''"
    by (rule mp [OF spec [OF conjunct1 [OF conjunct2 [OF conjunct2 [OF inst]]]] neq])
  then have c3: "snd (create_session 24 ''t2'' 10 ''bob'' ?s) ''t1''
            = Some \<lparr>username = ''alice'', created_at = 0, expires_at = 5\<rparr>"
    by (simp only: look)
  have "create_sessions 24 ?calls ?s ''t1'' = ?s ''t1''"
    by (rule mp [OF spec [OF conjunct2 [OF conjunct2 [OF conjunct2 [OF inst]]]] fresh])
  then have c4: "create_sessions 24 ?calls ?s ''t1''
            = Some \<lparr>username = ''alice'', created_at = 0, expires_at = 5\<rparr>"
    by (simp only: look)
  show ?thesis
    by (intro conjI) (rule c1, rule c2, rule c3, rule c4)
qed

text \<open>
  The claim as it is written, that a generated token already in the store is
  replaced by a fresh one and the stored session is kept, fails: the call returns the
  colliding token and the session stored under it is the new one. Here the session of
  \<open>alice\<close> under \<open>t1\<close> is replaced by one of \<open>bob\<close>.
\<close>

theorem create_session_collision_counterexample:
  "[''t1'' \<mapsto> \<lparr>username = ''alice'', created_at = 0, expires_at = timedelta_hours 24\<rparr>] ''t1''
     = Some \<lparr>username = ''alice'', created_at = 0, expires_at = timedelta_hours 24\<rparr>
   \<and> fst (create_session SESSION_DURATION_HOURS ''t1'' 10 ''bob''
          [''t1'' \<mapsto> \<lparr>username = ''alice'', created_at = 0, expires_at = timedelta_hours 24\<rparr>])
       = ''t1''
   \<and> snd (create_session SESSION_DURATION_HOURS ''t1'' 10 ''bob''
          [''t1'' \<mapsto> \<lparr>username = ''alice'', created_at = 0, expires_at = timedelta_hours 24\<rparr>]) ''t1''
       = Some \<lparr>username = ''bob'', created_at = 10,
               expires_at = 10 + timedelta_hours SESSION_DURATION_HOURS\<rparr>
   \<and> ''bob'' \<noteq> ''alice''"
  by (simp add: create_session_def)

text \<open>
  Claim C10. \<open>create_session\<close> takes no credential table and makes no test of its
  argument: for every username, the empty one and one that no table knows included,
  the call returns the generated token, stores a session of that username under it,
  and \<open>validate_session\<close> of the returned token gives the username back at every
  clock reading up to the expiry (the generated token is a UUID's text, hence not
  empty).
\<close>

theorem create_session_any_username:
  assumes "token \<noteq> []" and "t \<le> now + timedelta_hours hours"
  shows "fst (create_session hours token now uname store) = token
       \<and> snd (create_session hours token now uname store) token
           = Some \<lparr>username = uname, created_at = now,
                   expires_at = now + timedelta_hours hours\<rparr>
       \<and> fst (validate_session (fst (create_session hours token now uname store)) t
               (snd (create_session hours token now uname store))) = Some uname"
proof -
  let ?new = "\<lparr>username = uname, created_at = now, expires_at = now + timedelta_hours hours\<rparr>"
  let ?s = "snd (create_session hours token now uname store)"
  have tok: "fst (create_session hours token now uname store) = token"
    by (rule create_session_fst)
  have look: "?s token = Some ?new"
    by (simp add: create_session_snd_apply)
  from assms(2) have "t \<le> expires_at ?new" by simp
  with assms(1) look have "validate_session token t ?s = (Some (username ?new), ?s)"
    by (simp add: validate_session_live)
  then have "fst (validate_session token t ?s) = Some uname"
    by simp
  with tok look show ?thesis by simp
qed

theorem create_session_any_username_witness:
  "''t1'' \<noteq> [] \<and> (50::int) \<le> 0 + timedelta_hours 24
   \<and> fst (create_session 24 ''t1'' 0 [] Map.empty) = ''t1''
   \<and> snd (create_session 24 ''t1'' 0 [] Map.empty) ''t1''
       = Some \<lparr>username = [], created_at = 0, expires_at = 0 + timedelta_hours 24\<rparr>
   \<and> fst (validate_session (fst (create_session 24 ''t1'' 0 [] Map.empty)) 50
            (snd (create_session 24 ''t1'' 0 [] Map.empty))) = Some []
   \<and> USERS (\<lambda>p. ''sha256('' @ p @ '')'') ''mallory'' = None
   \<and> fst (validate_session (fst (create_session 24 ''t1'' 0 ''mallory'' Map.empty)) 50
            (snd (create_session 24 ''t1'' 0 ''mallory'' Map.empty))) = Some ''mallory''"
proof -
  have nonempty: "''t1'' \<noteq> []" by simp
  have live: "(50::int) \<le> 0 + timedelta_hours 24" by (simp add: timedelta_hours_def)
  note anon = create_session_any_username
    [where token = "''t1''" and t = 50 and now = 0 and hours = 24 and uname = "[]"
       and store = Map.empty, OF nonempty live]
  note stranger = create_session_any_username
    [where token = "''t1''" and t = 50 and now = 0 and hours = 24 and uname = "''mallory''"
       and store = Map.empty, OF nonempty live]
  have miss: "USERS (\<lambda>p. ''sha256('' @ p @ '')'') ''mallory'' = None"
    by (simp add: USERS_def)
  show ?thesis
    by (intro conjI)
      (rule nonempty, rule live, rule conjunct1 [OF anon],
       rule conjunct1 [OF conjunct2 [OF anon]], rule conjunct2 [OF conjunct2 [OF anon]],
       rule miss, rule conjunct2 [OF conjunct2 [OF stranger]])
qed

section \<open>Validating a session\<close>

text \<open>
  Claim C2. For a session stored under a token (tokens are UUID texts, hence not
  empty) and a clock reading \<open>now\<close>: \<open>validate_session\<close> returns the session's
  username whenever \<open>now \<le> expires_at\<close>, in particular between \<open>created_at\<close> and
  \<open>expires_at\<close>, and returns \<open>None\<close> whenever \<open>now > expires_at\<close>.
\<close>

theorem validate_session_expiry_window:
  assumes "store token = Some sess" and "token \<noteq> []"
  shows "(now \<le> expires_at sess \<longrightarrow>
            fst (validate_session token now store) = Some (username sess))
       \<and> (expires_at sess < now \<longrightarrow> fst (validate_session token now store) = None)"
  using assms by (simp add: validate_session_def)

theorem validate_session_expiry_window_witness:
  "[''t1'' \<mapsto> \<lparr>username = ''alice'', created_at = 0, expires_at = 5\<rparr>] ''t1''
     = Some \<lparr>username = ''alice'', created_at = 0, expires_at = 5\<rparr>
   \<and> ''t1'' \<noteq> []
   \<and> fst (validate_session ''t1'' 5
          [''t1'' \<mapsto> \<lparr>username = ''alice'', created_at = 0, expires_at = 5\<rparr>]) = Some ''alice''
   \<and> fst (validate_session ''t1'' 6
          [''t1'' \<mapsto> \<lparr>username = ''alice'', created_at = 0, expires_at = 5\<rparr>]) = None"
proof -
  let ?sess = "\<lparr>username = ''alice'', created_at = 0, expires_at = (5::int)\<rparr>"
  let ?s = "[''t1'' \<mapsto> ?sess]"
  have look: "?s ''t1'' = Some ?sess" by simp
  have nonempty: "''t1'' \<noteq> []" by simp
  note at5 = validate_session_expiry_window
    [where store = ?s and token = "''t1''" and sess = ?sess and now = 5, OF look nonempty]
  note at6 = validate_session_expiry_window
    [where store = ?s and token = "''t1''" and sess = ?sess and now = 6, OF look nonempty]
  have live: "(5::int) \<le> expires_at ?sess" by simp
  have late: "expires_at ?sess < (6::int)" by simp
  have "fst (validate_session ''t1'' 5 ?s) = Some (username ?sess)"
    by (rule mp [OF conjunct1 [OF at5] live])
  then have c3: "fst (validate_session ''t1'' 5 ?s) = Some ''alice''"
    by simp
  have c4: "fst (validate_session ''t1'' 6 ?s) = None"
    by (rule mp [OF conjunct2 [OF at6] late])
  show ?thesis
    by (intro conjI) (rule look, rule nonempty, rule c3, rule c4)
qed

text \<open>
  Claim C3, as the code has it. On a token whose stored session has \<open>expires_at\<close>
  before the clock reading, \<open>validate_session\<close> returns \<open>None\<close> and deletes that
  entry. A session created with a duration of 0 hours has \<open>expires_at = created_at\<close>:
  a validation at any clock reading after the one of its creation returns \<open>None\<close> and
  leaves the store without the entry, and a validation at the clock reading of its
  creation still returns the username and leaves the store as the creation left it,
  entry included, the test being the strict \<open>now > expires_at\<close>.
\<close>

theorem validate_session_reaps_expired:
  assumes "token \<noteq> []"
  shows "(store token = Some sess \<and> expires_at sess < now \<longrightarrow>
            fst (validate_session token now store) = None
            \<and> snd (validate_session token now store) = store(token := None))
       \<and> (start < now \<longrightarrow>
            fst (validate_session token now (snd (create_session 0 token start uname store))) = None
            \<and> snd (validate_session token now (snd (create_session 0 token start uname store)))
                = store(token := None))
       \<and> fst (validate_session token start (snd (create_session 0 token start uname store)))
           = Some uname
       \<and> snd (validate_session token start (snd (create_session 0 token start uname store)))
           = snd (create_session 0 token start uname store)
       \<and> snd (validate_session token start (snd (create_session 0 token start uname store)))
             token
           = Some \<lparr>username = uname, created_at = start, expires_at = start\<rparr>"
proof (intro conjI impI)
  assume a: "store token = Some sess \<and> expires_at sess < now"
  with assms have "validate_session token now store = (None, store(token := None))"
    by (simp add: validate_session_expired)
  then show "fst (validate_session token now store) = None"
    and "snd (validate_session token now store) = store(token := None)"
    by simp_all
next
  let ?s1 = "snd (create_session 0 token start uname store)"
  let ?new = "\<lparr>username = uname, created_at = start, expires_at = start + timedelta_hours 0\<rparr>"
  have look: "?s1 token = Some ?new"
    by (simp add: create_session_snd_apply)
  have exp: "expires_at ?new = start"
    by (simp add: timedelta_hours_def)
  have drop: "?s1(token := None) = store(token := None)"
    by (simp add: create_session_def)
  {
    assume "start < now"
    with exp have "expires_at ?new < now" by simp
    with assms look have "validate_session token now ?s1 = (None, ?s1(token := None))"
      by (simp add: validate_session_expired)
    with drop have "validate_session token now ?s1 = (None, store(token := None))"
      by simp
  }
  note later = this
  show "fst (validate_session token now ?s1) = None" if "start < now"
    using later [OF that] by simp
  show "snd (validate_session token now ?s1) = store(token := None)" if "start < now"
    using later [OF that] by simp
  from exp have "start \<le> expires_at ?new" by simp
  with assms look have same: "validate_session token start ?s1 = (Some (username ?new), ?s1)"
    by (simp add: validate_session_live)
  from same show "fst (validate_session token start ?s1) = Some uname"
    by simp
  from same show "snd (validate_session token start ?s1) = ?s1"
    by simp
  from same look show "snd (validate_session token start ?s1) token
      = Some \<lparr>username = uname, created_at = start, expires_at = start\<rparr>"
    by (simp add: timedelta_hours_def)
qed

theorem validate_session_reaps_expired_witness:
  "''t1'' \<noteq> []
   \<and> fst (validate_session ''t1'' 6
          [''t1'' \<mapsto> \<lparr>username = ''alice'', created_at = 0, expires_at = 5\<rparr>]) = None
   \<and> snd (validate_session ''t1'' 6
          [''t1'' \<mapsto> \<lparr>username = ''alice'', created_at = 0, expires_at = 5\<rparr>])
       = [''t1'' \<mapsto> \<lparr>username = ''alice'', created_at = 0, expires_at = 5\<rparr>](''t1'' := None)
   \<and> fst (validate_session ''t1'' 101
          (snd (create_session 0 ''t1'' 100 ''alice'' Map.empty))) = None
   \<and> snd (validate_session ''t1'' 101
          (snd (create_session 0 ''t1'' 100 ''alice'' Map.empty))) = Map.empty(''t1'' := None)
   \<and> fst (validate_session ''t1'' 100
          (snd (create_session 0 ''t1'' 100 ''alice'' Map.empty))) = Some ''alice''
   \<and> snd (validate_session ''t1'' 100
          (snd (create_session 0 ''t1'' 100 ''alice'' Map.empty)))
       = snd (create_session 0 ''t1'' 100 ''alice'' Map.empty)
   \<and> snd (validate_session ''t1'' 100
          (snd (create_session 0 ''t1'' 100 ''alice'' Map.empty))) ''t1''
       = Some \<lparr>username = ''alice'', created_at = 100, expires_at = 100\<rparr>"
proof -
  let ?sess = "\<lparr>username = ''alice'', created_at = 0, expires_at = (5::int)\<rparr>"
  let ?s = "[''t1'' \<mapsto> ?sess]"
  have nonempty: "''t1'' \<noteq> []" by simp
  note a = validate_session_reaps_expired
    [where token = "''t1''" and store = ?s and sess = ?sess and now = 6, OF nonempty]
  note b = validate_session_reaps_expired
    [where token = "''t1''" and store = Map.empty and start = 100 and now = 101
       and uname = "''alice''", OF nonempty]
  note b3 = conjunct2 [OF conjunct2 [OF b]]
  have expired: "?s ''t1'' = Some ?sess \<and> expires_at ?sess < (6::int)" by simp
  have later: "(100::int) < 101" by simp
  note a1 = mp [OF conjunct1 [OF a] expired]
  note b2 = mp [OF conjunct1 [OF conjunct2 [OF b]] later]
  show ?thesis
    by (intro conjI)
      (rule nonempty, rule conjunct1 [OF a1], rule conjunct2 [OF a1],
       rule conjunct1 [OF b2], rule conjunct2 [OF b2], rule conjunct1 [OF b3],
       rule conjunct1 [OF conjunct2 [OF b3]], rule conjunct2 [OF conjunct2 [OF b3]])
qed

text \<open>
  The claim as it is written, that a session of duration 0 is expired at once, fails
  when the clock reads the same at the validation as at the creation: the username is
  returned and the entry stays.
\<close>

theorem zero_duration_counterexample:
  "fst (validate_session ''t1'' 100 (snd (create_session 0 ''t1'' 100 ''alice'' Map.empty)))
     = Some ''alice''
   \<and> snd (validate_session ''t1'' 100 (snd (create_session 0 ''t1'' 100 ''alice'' Map.empty))) ''t1''
     = Some \<lparr>username = ''alice'', created_at = 100, expires_at = 100\<rparr>"
  by (simp add: validate_session_def create_session_def timedelta_hours_def)

text \<open>
  Claim C4. On the empty token \<open>validate_session\<close> returns \<open>None\<close> and the store
  as it was, whatever the store holds; on a token that is not a key of the store it
  returns \<open>None\<close> and the store as it was. Both are ordinary results: the function has
  no failing branch.
\<close>

theorem validate_session_absent:
  "validate_session [] now store = (None, store)
   \<and> (store token = None \<longrightarrow> validate_session token now store = (None, store))"
  by (simp add: validate_session_empty validate_session_miss)

theorem validate_session_absent_witness:
  "validate_session [] 7 [''t1'' \<mapsto> \<lparr>username = ''alice'', created_at = 0, expires_at = 5\<rparr>]
     = (None, [''t1'' \<mapsto> \<lparr>username = ''alice'', created_at = 0, expires_at = 5\<rparr>])
   \<and> [''t1'' \<mapsto> \<lparr>username = ''alice'', created_at = 0, expires_at = 5\<rparr>] ''not-a-real-token''
       = None
   \<and> validate_session ''not-a-real-token'' 7
        [''t1'' \<mapsto> \<lparr>username = ''alice'', created_at = 0, expires_at = 5\<rparr>]
     = (None, [''t1'' \<mapsto> \<lparr>username = ''alice'', created_at = 0, expires_at = 5\<rparr>])"
proof -
  let ?s = "[''t1'' \<mapsto> \<lparr>username = ''alice'', created_at = 0, expires_at = (5::int)\<rparr>]"
  note inst = validate_session_absent
    [where now = 7 and store = ?s and token = "''not-a-real-token''"]
  have miss: "?s ''not-a-real-token'' = None" by simp
  show ?thesis
    by (intro conjI)
      (rule conjunct1 [OF inst], rule miss, rule mp [OF conjunct2 [OF inst] miss])
qed

text \<open>
  Claim C8. A second \<open>validate_session\<close> of the same token at the same clock
  reading returns what the first call returned and leaves the store the first call
  left; more generally, when the clock has not gone back between two calls, the second
  call returns the result and the store that a single call at its clock reading gives.
  The store after a call is the store before it, or the store before it without the
  entry of the token, which then was an expired one.
\<close>

theorem validate_session_idempotent:
  "validate_session token now (snd (validate_session token now store))
     = validate_session token now store
   \<and> (first_now \<le> second_now \<longrightarrow>
         validate_session token second_now (snd (validate_session token first_now store))
           = validate_session token second_now store)
   \<and> (snd (validate_session token now store) = store
       \<or> (\<exists>sess. token \<noteq> [] \<and> store token = Some sess \<and> expires_at sess < now
             \<and> snd (validate_session token now store) = store(token := None)))"
proof (intro conjI impI)
  show "validate_session token now (snd (validate_session token now store))
          = validate_session token now store"
    by (rule validate_session_twice) simp
  show "validate_session token second_now (snd (validate_session token first_now store))
          = validate_session token second_now store"
    if "first_now \<le> second_now"
    using that by (rule validate_session_twice)
  show "snd (validate_session token now store) = store
        \<or> (\<exists>sess. token \<noteq> [] \<and> store token = Some sess \<and> expires_at sess < now
              \<and> snd (validate_session token now store) = store(token := None))"
    by (rule validate_session_frame)
qed

theorem validate_session_idempotent_witness:
  "validate_session ''t1'' 6
     (snd (validate_session ''t1'' 6
             [''t1'' \<mapsto> \<lparr>username = ''alice'', created_at = 0, expires_at = 5\<rparr>]))
     = validate_session ''t1'' 6
         [''t1'' \<mapsto> \<lparr>username = ''alice'', created_at = 0, expires_at = 5\<rparr>]
   \<and> validate_session ''t1'' 6
        [''t1'' \<mapsto> \<lparr>username = ''alice'', created_at = 0, expires_at = 5\<rparr>]
      = (None, Map.empty)
   \<and> (3::int) \<le> 7
   \<and> validate_session ''t1'' 7
        (snd (validate_session ''t1'' 3
                [''t1'' \<mapsto> \<lparr>username = ''alice'', created_at = 0, expires_at = 5\<rparr>]))
      = validate_session ''t1'' 7
          [''t1'' \<mapsto> \<lparr>username = ''alice'', created_at = 0, expires_at = 5\<rparr>]
   \<and> validate_session ''t1'' 3
        [''t1'' \<mapsto> \<lparr>username = ''alice'', created_at = 0, expires_at = 5\<rparr>]
      = (Some ''alice'',
         [''t1'' \<mapsto> \<lparr>username = ''alice'', created_at = 0, expires_at = 5\<rparr>])"
proof -
  let ?s = "[''t1'' \<mapsto> \<lparr>username = ''alice'', created_at = 0, expires_at = (5::int)\<rparr>]"
  have across: "(3::int) \<le> 7" by simp
  note same = validate_session_idempotent
    [where now = 6 and token = "''t1''" and store = ?s]
  note crossing = validate_session_idempotent
    [where first_now = 3 and second_now = 7 and token = "''t1''" and store = ?s]
  have reaped: "validate_session ''t1'' 6 ?s = (None, Map.empty)"
    by (simp add: validate_session_def)
  have kept: "validate_session ''t1'' 3 ?s = (Some ''alice'', ?s)"
    by (simp add: validate_session_def)
  show ?thesis
    by (intro conjI)
      (rule conjunct1 [OF same], rule reaped, rule across,
       rule mp [OF conjunct1 [OF conjunct2 [OF crossing]] across], rule kept)
qed

section \<open>Destroying a session\<close>

text \<open>
  Claim C9. \<open>destroy_session\<close> removes the entry of the token when there is one and
  touches no other entry; on a token that is not a key it leaves the store as it was
  (there is no error result); and a second call changes nothing: two calls leave the
  store that one call leaves.
\<close>

theorem destroy_session_idempotent:
  "destroy_session token store token = None
   \<and> (\<forall>t. t \<noteq> token \<longrightarrow> destroy_session token store t = store t)
   \<and> (store token = None \<longrightarrow> destroy_session token store = store)
   \<and> destroy_session token (destroy_session token store) = destroy_session token store"
proof -
  have gone: "destroy_session token store token = None"
    by (simp add: destroy_session_apply)
  have others: "\<forall>t. t \<noteq> token \<longrightarrow> destroy_session token store t = store t"
    by (simp add: destroy_session_apply)
  have unknown: "store token = None \<longrightarrow> destroy_session token store = store"
  proof
    assume "store token = None"
    then show "destroy_session token store = store"
      by (intro ext) (simp add: destroy_session_apply)
  qed
  have twice: "destroy_session token (destroy_session token store) = destroy_session token store"
    by (intro ext) (simp add: destroy_session_apply)
  from gone others unknown twice show ?thesis by blast
qed

theorem destroy_session_idempotent_witness:
  "destroy_session ''t1'' [''t1'' \<mapsto> \<lparr>username = ''alice'', created_at = 0, expires_at = 5\<rparr>] ''t1'' = None
   \<and> destroy_session ''t2'' [''t1'' \<mapsto> \<lparr>username = ''alice'', created_at = 0, expires_at = 5\<rparr>] ''t1''
       = Some \<lparr>username = ''alice'', created_at = 0, expires_at = 5\<rparr>
   \<and> destroy_session ''t2'' [''t1'' \<mapsto> \<lparr>username = ''alice'', created_at = 0, expires_at = 5\<rparr>]
       = [''t1'' \<mapsto> \<lparr>username = ''alice'', created_at = 0, expires_at = 5\<rparr>]
   \<and> destroy_session ''t1''
         (destroy_session ''t1'' [''t1'' \<mapsto> \<lparr>username = ''alice'', created_at = 0, expires_at = 5\<rparr>])
       = destroy_session ''t1'' [''t1'' \<mapsto> \<lparr>username = ''alice'', created_at = 0, expires_at = 5\<rparr>]"
proof -
  let ?s = "[''t1'' \<mapsto> \<lparr>username = ''alice'', created_at = 0, expires_at = (5::int)\<rparr>]"
  have miss: "?s ''t2'' = None" by simp
  have neq: "''t1'' \<noteq> ''t2''" by simp
  have look: "?s ''t1'' = Some \<lparr>username = ''alice'', created_at = 0, expires_at = 5\<rparr>" by simp
  note a = destroy_session_idempotent [of "''t1''" ?s]
  note b = destroy_session_idempotent [of "''t2''" ?s]
  have c1: "destroy_session ''t1'' ?s ''t1'' = None"
    by (rule conjunct1 [OF a])
  have "destroy_session ''t2'' ?s ''t1'' = ?s ''t1''"
    by (rule mp [OF spec [OF conjunct1 [OF conjunct2 [OF b]]] neq])
  then have c2: "destroy_session ''t2'' ?s ''t1''
      = Some \<lparr>username = ''alice'', created_at = 0, expires_at = 5\<rparr>"
    by (simp only: look)
  have c3: "destroy_session ''t2'' ?s = ?s"
    by (rule mp [OF conjunct1 [OF conjunct2 [OF conjunct2 [OF b]]] miss])
  have c4: "destroy_session ''t1'' (destroy_session ''t1'' ?s) = destroy_session ''t1'' ?s"
    by (rule conjunct2 [OF conjunct2 [OF conjunct2 [OF a]]])
  show ?thesis
    by (intro conjI) (rule c1, rule c2, rule c3, rule c4)
qed

text \<open>
  Claim C5. After \<open>create_session\<close> of a username, \<open>validate_session\<close> of the
  returned token gives that username at every clock reading up to the expiry and
  \<open>None\<close> after it; after \<open>destroy_session\<close> of the token it gives \<open>None\<close>; and the
  cookie written with the returned token reads back as that token, so a request that
  presents the cookie validates as the token does (the generated token is a UUID's
  text, hence not empty).
\<close>

theorem session_round_trip:
  assumes "token \<noteq> []" and "t \<le> now + timedelta_hours hours"
  shows "fst (validate_session (fst (create_session hours token now uname store)) t
               (snd (create_session hours token now uname store))) = Some uname
       \<and> fst (validate_session (fst (create_session hours token now uname store)) t_after
               (destroy_session (fst (create_session hours token now uname store))
                  (snd (create_session hours token now uname store)))) = None
       \<and> (now + timedelta_hours hours < t_late \<longrightarrow>
            fst (validate_session (fst (create_session hours token now uname store)) t_late
                   (snd (create_session hours token now uname store))) = None)
       \<and> cookies_get
            (cookie_manager_set COOKIE_NAME (fst (create_session hours token now uname store)) jar)
            COOKIE_NAME
           = Some (fst (create_session hours token now uname store))"
proof -
  let ?new = "\<lparr>username = uname, created_at = now, expires_at = now + timedelta_hours hours\<rparr>"
  let ?s = "snd (create_session hours token now uname store)"
  have tok: "fst (create_session hours token now uname store) = token"
    by (rule create_session_fst)
  have look: "?s token = Some ?new"
    by (simp add: create_session_snd_apply)
  from assms(2) have live: "t \<le> expires_at ?new" by simp
  from assms(1) look live have "validate_session token t ?s = (Some (username ?new), ?s)"
    by (simp add: validate_session_live)
  then have valid: "fst (validate_session token t ?s) = Some uname"
    by simp
  have "destroy_session token ?s token = None"
    by (simp add: destroy_session_apply)
  then have "validate_session token t_after (destroy_session token ?s)
             = (None, destroy_session token ?s)"
    by (rule validate_session_miss)
  then have destroyed: "fst (validate_session token t_after (destroy_session token ?s)) = None"
    by simp
  have expired: "fst (validate_session token t_late ?s) = None"
    if "now + timedelta_hours hours < t_late"
  proof -
    from that have "expires_at ?new < t_late" by simp
    with assms(1) look have "validate_session token t_late ?s = (None, ?s(token := None))"
      by (simp add: validate_session_expired)
    then show ?thesis by simp
  qed
  have cookie: "cookies_get (cookie_manager_set COOKIE_NAME token jar) COOKIE_NAME = Some token"
    by (simp add: cookies_get_def cookie_manager_set_def)
  from valid destroyed expired cookie show ?thesis
    by (simp only: tok) blast
qed

theorem session_round_trip_witness:
  "''t1'' \<noteq> [] \<and> (50::int) \<le> 0 + timedelta_hours 24
   \<and> fst (validate_session (fst (create_session 24 ''t1'' 0 ''alice'' Map.empty)) 50
            (snd (create_session 24 ''t1'' 0 ''alice'' Map.empty))) = Some ''alice''
   \<and> fst (validate_session (fst (create_session 24 ''t1'' 0 ''alice'' Map.empty)) 60
            (destroy_session (fst (create_session 24 ''t1'' 0 ''alice'' Map.empty))
               (snd (create_session 24 ''t1'' 0 ''alice'' Map.empty)))) = None
   \<and> fst (validate_session (fst (create_session 24 ''t1'' 0 ''alice'' Map.empty)) 86400000001
            (snd (create_session 24 ''t1'' 0 ''alice'' Map.empty))) = None
   \<and> cookies_get
        (cookie_manager_set COOKIE_NAME (fst (create_session 24 ''t1'' 0 ''alice'' Map.empty))
           Map.empty)
        COOKIE_NAME
       = Some (fst (create_session 24 ''t1'' 0 ''alice'' Map.empty))"
proof -
  have nonempty: "''t1'' \<noteq> []" by simp
  have live: "(50::int) \<le> 0 + timedelta_hours 24" by (simp add: timedelta_hours_def)
  have late: "0 + timedelta_hours 24 < (86400000001::int)" by (simp add: timedelta_hours_def)
  note inst = session_round_trip
    [where token = "''t1''" and t = 50 and now = 0 and hours = 24 and uname = "''alice''"
       and store = Map.empty and t_after = 60 and t_late = 86400000001 and jar = Map.empty,
     OF nonempty live]
  show ?thesis
    by (intro conjI)
      (rule nonempty, rule live, rule conjunct1 [OF inst],
       rule conjunct1 [OF conjunct2 [OF inst]],
       rule mp [OF conjunct1 [OF conjunct2 [OF conjunct2 [OF inst]]] late],
       rule conjunct2 [OF conjunct2 [OF conjunct2 [OF inst]]])
qed

section \<open>Verifying credentials\<close>

text \<open>
  Claim C6, as the code has it. For every username and every password that UTF-8 can
  encode (a text with no surrogate code point): \<open>verify_user\<close> returns, and returns
  \<open>True\<close> exactly when the table has the username and the stored digest equals the
  digest of the password; so it returns \<open>False\<close> for a username the table does not
  have, and \<open>False\<close> when the stored digest differs from the password's. The call
  leaves the credential table and the session store as they were, a second call with
  the same arguments gives what the first gave, and the result depends on the state
  through the table's entry of the username alone.
\<close>

theorem verify_user_characterisation:
  assumes "encode password = Inr bytes"
  shows "fst (verify_user sha256_hex uname password (users, store))
           = Inr (users uname = Some (sha256_hex bytes))
       \<and> (users uname = None \<longrightarrow>
            fst (verify_user sha256_hex uname password (users, store)) = Inr False)
       \<and> (\<forall>stored. users uname = Some stored \<and> stored \<noteq> sha256_hex bytes \<longrightarrow>
            fst (verify_user sha256_hex uname password (users, store)) = Inr False)
       \<and> snd (verify_user sha256_hex uname password (users, store)) = (users, store)
       \<and> verify_user sha256_hex uname password
            (snd (verify_user sha256_hex uname password (users, store)))
           = verify_user sha256_hex uname password (users, store)
       \<and> (users uname = other_users uname \<longrightarrow>
            fst (verify_user sha256_hex uname password (other_users, other_store))
              = fst (verify_user sha256_hex uname password (users, store)))"
proof -
  have here: "verify_user sha256_hex uname password (users, store)
              = (Inr (users uname = Some (sha256_hex bytes)), users, store)"
    using assms by (rule verify_user_encodable)
  have there: "verify_user sha256_hex uname password (other_users, other_store)
              = (Inr (other_users uname = Some (sha256_hex bytes)), other_users, other_store)"
    using assms by (rule verify_user_encodable)
  show ?thesis
  proof (intro conjI impI allI)
    show "fst (verify_user sha256_hex uname password (users, store))
            = Inr (users uname = Some (sha256_hex bytes))"
      by (simp add: here)
    show "fst (verify_user sha256_hex uname password (users, store)) = Inr False"
      if "users uname = None"
      using that by (simp add: here)
    show "fst (verify_user sha256_hex uname password (users, store)) = Inr False"
      if "users uname = Some stored \<and> stored \<noteq> sha256_hex bytes" for stored
      using that by (auto simp: here)
    show "snd (verify_user sha256_hex uname password (users, store)) = (users, store)"
      by (rule verify_user_state)
    show "verify_user sha256_hex uname password
            (snd (verify_user sha256_hex uname password (users, store)))
          = verify_user sha256_hex uname password (users, store)"
      by (simp only: verify_user_state)
    show "fst (verify_user sha256_hex uname password (other_users, other_store))
            = fst (verify_user sha256_hex uname password (users, store))"
      if "users uname = other_users uname"
      using that by (simp add: here there)
  qed
qed

text \<open>
  In the closed instances below the digest function is a symbolic one, which writes
  \<open>sha256(b)\<close> for the digest of the bytes \<open>b\<close>, and a password of ASCII letters is
  given by the letters, \<open>of_char\<close> taking each to its code point.
\<close>

theorem verify_user_characterisation_witness:
  "encode (map of_char ''test1'') = Inr ''test1''
   \<and> fst (verify_user (\<lambda>b. ''sha256('' @ b @ '')'') ''test1'' (map of_char ''test1'')
           (USERS (\<lambda>b. ''sha256('' @ b @ '')''), Map.empty))
       = Inr True
   \<and> encode (map of_char ''wonderland'') = Inr ''wonderland''
   \<and> USERS (\<lambda>b. ''sha256('' @ b @ '')'') ''bob'' = None
   \<and> fst (verify_user (\<lambda>b. ''sha256('' @ b @ '')'') ''bob'' (map of_char ''wonderland'')
           (USERS (\<lambda>b. ''sha256('' @ b @ '')''), Map.empty))
       = Inr False
   \<and> encode (map of_char ''wrong'') = Inr ''wrong''
   \<and> USERS (\<lambda>b. ''sha256('' @ b @ '')'') ''test1'' = Some ''sha256(test1)''
   \<and> ''sha256(test1)'' \<noteq> ''sha256(wrong)''
   \<and> fst (verify_user (\<lambda>b. ''sha256('' @ b @ '')'') ''test1'' (map of_char ''wrong'')
           (USERS (\<lambda>b. ''sha256('' @ b @ '')''), Map.empty))
       = Inr False
   \<and> snd (verify_user (\<lambda>b. ''sha256('' @ b @ '')'') ''test1'' (map of_char ''wrong'')
           (USERS (\<lambda>b. ''sha256('' @ b @ '')''), Map.empty))
       = (USERS (\<lambda>b. ''sha256('' @ b @ '')''), Map.empty)"
proof -
  let ?h = "\<lambda>b. ''sha256('' @ b @ '')''"
  let ?none = "Map.empty :: session_store"
  have enc_good: "encode (map of_char ''test1'') = Inr ''test1''"
    by (rule encode_ascii) simp
  have enc_unknown: "encode (map of_char ''wonderland'') = Inr ''wonderland''"
    by (rule encode_ascii) simp
  have enc_wrong: "encode (map of_char ''wrong'') = Inr ''wrong''"
    by (rule encode_ascii) simp
  note good = verify_user_characterisation
    [where password = "map of_char ''test1''" and bytes = "''test1''" and sha256_hex = ?h
       and uname = "''test1''" and users = "USERS ?h" and store = ?none, OF enc_good]
  note unknown = verify_user_characterisation
    [where password = "map of_char ''wonderland''" and bytes = "''wonderland''"
       and sha256_hex = ?h and uname = "''bob''" and users = "USERS ?h" and store = ?none,
     OF enc_unknown]
  note wrong = verify_user_characterisation
    [where password = "map of_char ''wrong''" and bytes = "''wrong''" and sha256_hex = ?h
       and uname = "''test1''" and users = "USERS ?h" and store = ?none, OF enc_wrong]
  have stored: "(USERS ?h ''test1'' = Some (?h ''test1'')) = True"
    by (simp add: USERS_def)
  have "fst (verify_user ?h ''test1'' (map of_char ''test1'') (USERS ?h, ?none))
        = Inr (USERS ?h ''test1'' = Some (?h ''test1''))"
    by (rule conjunct1 [OF good])
  then have c2: "fst (verify_user ?h ''test1'' (map of_char ''test1'') (USERS ?h, ?none))
        = Inr True"
    by (simp only: stored)
  have miss: "USERS ?h ''bob'' = None"
    by (simp add: USERS_def)
  have c5: "fst (verify_user ?h ''bob'' (map of_char ''wonderland'') (USERS ?h, ?none))
        = Inr False"
    by (rule mp [OF conjunct1 [OF conjunct2 [OF unknown]] miss])
  have look: "USERS ?h ''test1'' = Some ''sha256(test1)''"
    by (simp add: USERS_def)
  have differ: "''sha256(test1)'' \<noteq> ?h ''wrong''"
    by simp
  have differ_lit: "''sha256(test1)'' \<noteq> ''sha256(wrong)''"
    by simp
  have c9: "fst (verify_user ?h ''test1'' (map of_char ''wrong'') (USERS ?h, ?none))
        = Inr False"
    by (rule mp [OF spec [OF conjunct1 [OF conjunct2 [OF conjunct2 [OF wrong]]]]
          conjI [OF look differ]])
  have c10: "snd (verify_user ?h ''test1'' (map of_char ''wrong'') (USERS ?h, ?none))
        = (USERS ?h, ?none)"
    by (rule conjunct1 [OF conjunct2 [OF conjunct2 [OF conjunct2 [OF wrong]]]])
  show ?thesis
    by (intro conjI)
      (rule enc_good, rule c2, rule enc_unknown, rule miss, rule c5, rule enc_wrong,
       rule look, rule differ_lit, rule c9, rule c10)
qed

text \<open>
  The claim as it is written, for every password, fails on a password with a
  surrogate code point: the encoding raises before the lookup, whether the table has
  the username or not.
\<close>

theorem verify_user_surrogate_counterexample:
  "USERS (\<lambda>b. ''sha256('' @ b @ '')'') ''bob'' = None
   \<and> fst (verify_user (\<lambda>b. ''sha256('' @ b @ '')'') ''bob'' [0xD800]
           (USERS (\<lambda>b. ''sha256('' @ b @ '')''), Map.empty))
       = Inl UnicodeEncodeError"
  by (simp add: USERS_def verify_user_raises [OF encode_surrogate])

text \<open>
  Claim C7, as the code has it. \<open>verify_user\<close> has no test for empty arguments, which
  go through the hashing, the lookup and the comparison that any arguments go through:
  for a password that UTF-8 can encode, the result is whether the table holds the
  password's digest under the username. With the table the module ships it so returns
  \<open>False\<close> for the empty username and a password that UTF-8 can encode, and \<open>False\<close>
  for the empty password and any username, the digest of no bytes being neither the
  digest of \<open>test1\<close> nor that of \<open>test2\<close>. The test for empty fields before any
  lookup is the login form's: when the username or the password is empty it reports
  the error and changes nothing, whatever the other field and the table hold.
\<close>

theorem verify_user_empty_inputs:
  assumes "encode password = Inr bytes"
  shows "fst (verify_user sha256_hex [] password (USERS sha256_hex, store)) = Inr False
       \<and> (sha256_hex [] \<noteq> sha256_hex ''test1'' \<and> sha256_hex [] \<noteq> sha256_hex ''test2'' \<longrightarrow>
            fst (verify_user sha256_hex uname [] (USERS sha256_hex, store)) = Inr False)
       \<and> fst (verify_user sha256_hex [] password (users, store))
           = Inr (users [] = Some (sha256_hex bytes))
       \<and> fst (verify_user sha256_hex uname [] (users, store))
           = Inr (users uname = Some (sha256_hex []))
       \<and> (uname = [] \<or> typed = [] \<longrightarrow>
            login_submitted sha256_hex hours token now uname typed st
              = Inr (EmptyFieldsError, st))"
proof (intro conjI impI)
  have no_bytes: "encode [] = Inr []"
    by simp
  show "fst (verify_user sha256_hex [] password (USERS sha256_hex, store)) = Inr False"
    by (simp add: verify_user_encodable [OF assms] USERS_def)
  show "fst (verify_user sha256_hex uname [] (USERS sha256_hex, store)) = Inr False"
    if "sha256_hex [] \<noteq> sha256_hex ''test1'' \<and> sha256_hex [] \<noteq> sha256_hex ''test2''"
    using that by (auto simp: verify_user_encodable [OF no_bytes] USERS_def)
  show "fst (verify_user sha256_hex [] password (users, store))
          = Inr (users [] = Some (sha256_hex bytes))"
    by (simp add: verify_user_encodable [OF assms])
  show "fst (verify_user sha256_hex uname [] (users, store))
          = Inr (users uname = Some (sha256_hex []))"
    by (simp add: verify_user_encodable [OF no_bytes])
  show "login_submitted sha256_hex hours token now uname typed st
          = Inr (EmptyFieldsError, st)"
    if "uname = [] \<or> typed = []"
    using that by (cases st) (auto simp: login_submitted_def)
qed

theorem verify_user_empty_inputs_witness:
  "encode (map of_char ''pw'') = Inr ''pw''
   \<and> fst (verify_user (\<lambda>b. ''sha256('' @ b @ '')'') [] (map of_char ''pw'')
           (USERS (\<lambda>b. ''sha256('' @ b @ '')''), Map.empty))
       = Inr False
   \<and> ''sha256()'' \<noteq> ''sha256(test1)'' \<and> ''sha256()'' \<noteq> ''sha256(test2)''
   \<and> fst (verify_user (\<lambda>b. ''sha256('' @ b @ '')'') ''test1'' []
           (USERS (\<lambda>b. ''sha256('' @ b @ '')''), Map.empty))
       = Inr False
   \<and> login_submitted (\<lambda>b. ''sha256('' @ b @ '')'') 24 ''t1'' 10 [] (map of_char ''test1'')
        (\<lparr>authenticated = False, state_username = None, state_token = None\<rparr>,
         USERS (\<lambda>b. ''sha256('' @ b @ '')''), Map.empty, Map.empty)
      = Inr (EmptyFieldsError,
             \<lparr>authenticated = False, state_username = None, state_token = None\<rparr>,
             USERS (\<lambda>b. ''sha256('' @ b @ '')''), Map.empty, Map.empty)
   \<and> login_submitted (\<lambda>b. ''sha256('' @ b @ '')'') 24 ''t1'' 10 ''test1'' []
        (\<lparr>authenticated = False, state_username = None, state_token = None\<rparr>,
         USERS (\<lambda>b. ''sha256('' @ b @ '')''), Map.empty, Map.empty)
      = Inr (EmptyFieldsError,
             \<lparr>authenticated = False, state_username = None, state_token = None\<rparr>,
             USERS (\<lambda>b. ''sha256('' @ b @ '')''), Map.empty, Map.empty)"
proof -
  let ?h = "\<lambda>b. ''sha256('' @ b @ '')''"
  let ?none = "Map.empty :: session_store"
  let ?st = "(\<lparr>authenticated = False, state_username = None, state_token = None\<rparr>,
              USERS ?h, ?none, Map.empty :: cookies)"
  have enc: "encode (map of_char ''pw'') = Inr ''pw''"
    by (rule encode_ascii) simp
  note no_name = verify_user_empty_inputs
    [where password = "map of_char ''pw''" and bytes = "''pw''" and sha256_hex = ?h
       and store = ?none and uname = "[]" and typed = "map of_char ''test1''"
       and hours = 24 and token = "''t1''" and now = 10 and st = ?st, OF enc]
  note no_password = verify_user_empty_inputs
    [where password = "map of_char ''pw''" and bytes = "''pw''" and sha256_hex = ?h
       and store = ?none and uname = "''test1''" and typed = "[]"
       and hours = 24 and token = "''t1''" and now = 10 and st = ?st, OF enc]
  have digests: "?h [] \<noteq> ?h ''test1'' \<and> ?h [] \<noteq> ?h ''test2''"
    by simp
  have d1: "''sha256()'' \<noteq> ''sha256(test1)''" by simp
  have d2: "''sha256()'' \<noteq> ''sha256(test2)''" by simp
  have left: "([]::string) = [] \<or> map of_char ''test1'' = ([]::nat list)" by simp
  have right: "''test1'' = [] \<or> ([]::nat list) = []" by simp
  have c2: "fst (verify_user ?h [] (map of_char ''pw'') (USERS ?h, ?none)) = Inr False"
    by (rule conjunct1 [OF no_name])
  have c5: "fst (verify_user ?h ''test1'' [] (USERS ?h, ?none)) = Inr False"
    by (rule mp [OF conjunct1 [OF conjunct2 [OF no_password]] digests])
  have c6: "login_submitted ?h 24 ''t1'' 10 [] (map of_char ''test1'') ?st
            = Inr (EmptyFieldsError, ?st)"
    by (rule mp [OF conjunct2 [OF conjunct2 [OF conjunct2 [OF conjunct2 [OF no_name]]]] left])
  have c7: "login_submitted ?h 24 ''t1'' 10 ''test1'' [] ?st = Inr (EmptyFieldsError, ?st)"
    by (rule mp [OF conjunct2 [OF conjunct2 [OF conjunct2 [OF conjunct2 [OF no_password]]]]
          right])
  show ?thesis
    by (intro conjI) (rule enc, rule c2, rule d1, rule d2, rule c5, rule c6, rule c7)
qed

text \<open>
  The claim as it is written, that \<open>verify_user\<close> turns an empty username away
  before anything else and returns \<open>False\<close>, fails on the empty username with a
  password that has a surrogate code point: the password is encoded first, and the
  call raises, with the table the module ships.
\<close>

theorem verify_user_empty_username_counterexample:
  "fst (verify_user (\<lambda>b. ''sha256('' @ b @ '')'') [] [0xD800]
          (USERS (\<lambda>b. ''sha256('' @ b @ '')''), Map.empty))
     = Inl UnicodeEncodeError
   \<and> fst (verify_user (\<lambda>b. ''sha256('' @ b @ '')'') [] [0xD800]
          (USERS (\<lambda>b. ''sha256('' @ b @ '')''), Map.empty))
     \<noteq> Inr False"
  by (simp add: verify_user_raises [OF encode_surrogate])

end
